theory Spec2Isabelle
  imports Complex_Main
begin

section \<open>JavaScript values\<close>

text \<open>
  The values the handler receives and produces: configuration objects read from YAML,
  resolver arguments, parsed response bodies. An object is the list of its own enumerable
  properties in property order, with pairwise distinct keys; \<open>JUndefined\<close> is what reading a
  missing property gives. Properties inherited from \<^verbatim>\<open>Object.prototype\<close> (\<^verbatim>\<open>constructor\<close>,
  \<^verbatim>\<open>__proto__\<close> and the like) are not modelled, and keys are taken not to be array indices,
  which JavaScript would enumerate first. A string is a list of characters with codes below
  256, one per code unit; numbers are only ever tested for being zero.
\<close>

datatype js =
    JUndefined
  | JNull
  | JBool bool
  | JNum real
  | JStr string
  | JArr "js list"
  | JObj "(string \<times> js) list"

type_synonym js_object = "(string \<times> js) list"

text \<open>The conversion to boolean of \<^verbatim>\<open>if (v)\<close>, \<^verbatim>\<open>!v\<close> and \<^verbatim>\<open>a || b\<close>.\<close>

fun truthy :: "js \<Rightarrow> bool" where
  "truthy JUndefined = False"
| "truthy JNull = False"
| "truthy (JBool b) = b"
| "truthy (JNum n) = (n \<noteq> 0)"
| "truthy (JStr s) = (s \<noteq> [])"
| "truthy (JArr xs) = True"
| "truthy (JObj kvs) = True"

definition js_or :: "js \<Rightarrow> js \<Rightarrow> js" where
  "js_or a b = (if truthy a then a else b)"

text \<open>\<^verbatim>\<open>key in obj\<close> and \<^verbatim>\<open>obj.key\<close> on an object.\<close>

definition has_key :: "string \<Rightarrow> js_object \<Rightarrow> bool" where
  "has_key k obj = (k \<in> set (map fst obj))"

definition get_prop :: "js_object \<Rightarrow> string \<Rightarrow> js" where
  "get_prop obj k = (case map_of obj k of None \<Rightarrow> JUndefined | Some v \<Rightarrow> v)"

text \<open>\<^verbatim>\<open>obj[key] = v\<close>: an existing property keeps its place, a new one goes last.\<close>

fun assign :: "(string \<times> 'v) list \<Rightarrow> string \<Rightarrow> 'v \<Rightarrow> (string \<times> 'v) list" where
  "assign [] k v = [(k, v)]"
| "assign ((k', v') # kvs) k v =
     (if k' = k then (k, v) # kvs else (k', v') # assign kvs k v)"

text \<open>\<^verbatim>\<open>String.prototype.toLowerCase\<close> on ASCII letters; a letter outside ASCII, which JavaScript
  would lowercase too, is left as it is, and never becomes an ASCII letter either way.\<close>

definition lower_char :: "char \<Rightarrow> char" where
  "lower_char c =
     (case map_of (zip ''ABCDEFGHIJKLMNOPQRSTUVWXYZ'' ''abcdefghijklmnopqrstuvwxyz'') c of
        Some l \<Rightarrow> l
      | None \<Rightarrow> c)"

definition toLowerCase :: "string \<Rightarrow> string" where
  "toLowerCase s = map lower_char s"

text \<open>
  What a resolver returns or throws: a plain value, \<^verbatim>\<open>new Error(message)\<close>, the error object
  that \<^verbatim>\<open>normalizeError\<close> builds (its message, and the source object whose properties are
  assigned onto it, the stack cleared), an \<^verbatim>\<open>AggregateError\<close> with its entries and message,
  and the TypeError of the runtime.
\<close>

datatype jsvalue =
    Plain js
  | Error string
  | ErrorObject string js
  | AggregateError "jsvalue list" string
  | TypeError

datatype outcome = Returns jsvalue | Throws jsvalue

section \<open>Operation metadata\<close>

text \<open>
  An operation config is the object as loaded: the handler casts the configured list to
  \<^verbatim>\<open>JSONSchemaOperationConfig[]\<close> without checking it, and the classifier asks for a key
  by name, so the config is modelled with its keys.
\<close>

definition isPubSubOperationConfig :: "js_object \<Rightarrow> bool" where
  "isPubSubOperationConfig operationConfig = has_key ''pubSubTopic'' operationConfig"

record operation_metadata =
  httpMethod :: js
  operationType :: string
  rootTypeName :: string
  fieldName :: js

text \<open>
  \<^verbatim>\<open>operationConfig.type.toLowerCase()\<close> throws a TypeError unless \<open>type\<close> is a string.
  \<open>rootTypeName0\<close> is the assignment under \<^verbatim>\<open>if (!rootTypeName)\<close>, which the next statement
  overwrites.
\<close>

definition getOperationMetadata :: "js_object \<Rightarrow> jsvalue + operation_metadata" where
  "getOperationMetadata operationConfig =
     (if isPubSubOperationConfig operationConfig then
        Inr \<lparr> httpMethod = JNull, operationType = ''subscription'',
              rootTypeName = ''Subscription'', fieldName = get_prop operationConfig ''field'' \<rparr>
      else
        (case get_prop operationConfig ''type'' of
           JStr t \<Rightarrow>
             (let httpMethod0 = get_prop operationConfig ''method'';
                  operationType = toLowerCase t;
                  httpMethod = (if \<not> truthy httpMethod0
                                then (if operationType = ''mutation'' then JStr ''POST''
                                      else JStr ''GET'')
                                else httpMethod0);
                  rootTypeName0 = (if httpMethod = JStr ''GET'' then Some ''Query'' else None);
                  rootTypeName = (if operationType = ''query'' then ''Query'' else ''Mutation'')
              in Inr \<lparr> httpMethod = httpMethod, operationType = operationType,
                       rootTypeName = rootTypeName, fieldName = get_prop operationConfig ''field'' \<rparr>)
         | _ \<Rightarrow> Inl TypeError))"

section \<open>Execution binder\<close>

subsection \<open>The collaborators\<close>

text \<open>
  The resolver calls into the platform and into packages that are not part of this
  development. Each is a parameter; nothing is assumed of them.
\<close>

record url =
  url_href :: string
  searchParams :: "(string \<times> string) list"

record request_init =
  ri_method :: js
  ri_headers :: "(string \<times> string) list"
  ri_body :: "string option"

record platform =
  env :: js
  stringInterpolator_parse :: "js \<Rightarrow> js \<Rightarrow> string"
  urlJoin :: "string \<Rightarrow> string \<Rightarrow> string"
  URL_new :: "string \<Rightarrow> url option"
  URL_toString :: "url \<Rightarrow> string"
  ToString :: "js \<Rightarrow> string"
  URLSearchParams_init :: "js \<Rightarrow> jsvalue + (string \<times> string) list"
  resolveDataByUnionInputType :: "js \<Rightarrow> js"
  qsStringify :: "js \<Rightarrow> string"
  jsonFlatStringify :: "js \<Rightarrow> string"
  fetch_text :: "string \<Rightarrow> request_init \<Rightarrow> jsvalue + string"
  JSON_parse :: "string \<Rightarrow> js option"
  asyncIterator :: "string \<Rightarrow> jsvalue"

text \<open>
  \<open>URL_new\<close> is \<^verbatim>\<open>new URL(s)\<close> (\<open>None\<close>: it throws); \<open>fetch_text\<close> is the cached fetch followed
  by \<^verbatim>\<open>response.text()\<close> (\<open>Inl\<close>: the promise rejects); \<open>JSON_parse\<close> is \<^verbatim>\<open>JSON.parse\<close>
  (\<open>None\<close>: it throws); \<open>resolveDataByUnionInputType\<close> is applied to \<^verbatim>\<open>args.input\<close> with the
  field's input type and the composer fixed; \<open>ToString\<close> converts numbers, arrays and objects
  to strings; \<open>URLSearchParams_init\<close> is the constructor on anything that is not a plain
  object.
\<close>

record loader_options =
  baseUrl :: js
  operationHeaders :: js
  errorMessage :: js
  operations :: "js_object list"

text \<open>String conversion in a template literal.\<close>

definition js_toString :: "platform \<Rightarrow> js \<Rightarrow> string" where
  "js_toString P v =
     (case v of
        JStr s \<Rightarrow> s
      | JUndefined \<Rightarrow> ''undefined''
      | JNull \<Rightarrow> ''null''
      | JBool b \<Rightarrow> (if b then ''true'' else ''false'')
      | _ \<Rightarrow> ToString P v)"

subsection \<open>Request construction\<close>

text \<open>
  Object spread \<^verbatim>\<open>{ ...a, ...b }\<close> of two header tables, each an object or absent (null and
  undefined spread to nothing).
\<close>

definition own_entries :: "js \<Rightarrow> js_object" where
  "own_entries v = (case v of JObj kvs \<Rightarrow> kvs | _ \<Rightarrow> [])"

definition spread :: "js \<Rightarrow> js \<Rightarrow> js_object" where
  "spread a b = foldl (\<lambda>acc (k, v). assign acc k v) [] (own_entries a @ own_entries b)"

definition interpolationData :: "platform \<Rightarrow> js \<Rightarrow> js_object \<Rightarrow> js \<Rightarrow> js \<Rightarrow> js" where
  "interpolationData P rootValue args context info =
     JObj [(''root'', rootValue), (''args'', JObj args), (''context'', context), (''info'', info),
           (''env'', env P)]"

definition interpolated_headers ::
  "platform \<Rightarrow> loader_options \<Rightarrow> js_object \<Rightarrow> js \<Rightarrow> (string \<times> string) list" where
  "interpolated_headers P options operationConfig data =
     map (\<lambda>(headerName, v). (headerName, stringInterpolator_parse P v data))
       (spread (operationHeaders options) (get_prop operationConfig ''headers''))"

text \<open>\<^verbatim>\<open>URLSearchParams.prototype.set\<close>: the first pair of that name takes the value, the
  others of that name are removed; with no such pair, one is appended.\<close>

fun usp_set :: "(string \<times> string) list \<Rightarrow> string \<Rightarrow> string \<Rightarrow> (string \<times> string) list" where
  "usp_set [] name v = [(name, v)]"
| "usp_set ((n', v') # ps) name v =
     (if n' = name then (name, v) # filter (\<lambda>p. fst p \<noteq> name) ps
      else (n', v') # usp_set ps name v)"

text \<open>\<^verbatim>\<open>new URLSearchParams(input)\<close>: a plain object gives one pair per own property, the value
  converted to a string.\<close>

definition URLSearchParams_new :: "platform \<Rightarrow> js \<Rightarrow> jsvalue + (string \<times> string) list" where
  "URLSearchParams_new P input =
     (case input of
        JObj kvs \<Rightarrow> Inr (map (\<lambda>(k, v). (k, js_toString P v)) kvs)
      | _ \<Rightarrow> URLSearchParams_init P input)"

definition startsWith :: "string \<Rightarrow> string \<Rightarrow> bool" where
  "startsWith s p = (take (length p) s = p)"

text \<open>\<^verbatim>\<open>Object.entries(headers).find(([key]) => key.toLowerCase() === 'content-type')\<close>, and the
  second component of what it finds.\<close>

definition find_content_type :: "(string \<times> string) list \<Rightarrow> string option" where
  "find_content_type headers =
     map_option snd (find (\<lambda>(key, v). toLowerCase key = ''content-type'') headers)"

text \<open>The statement \<^verbatim>\<open>if (input) { switch (httpMethod) ... }\<close>.\<close>

definition apply_input ::
  "platform \<Rightarrow> js \<Rightarrow> (string \<times> string) list \<Rightarrow> js \<Rightarrow> url \<Rightarrow> request_init
    \<Rightarrow> jsvalue + (url \<times> request_init)" where
  "apply_input P httpMethod' headers input urlObj requestInit =
     (if truthy input then
        (if httpMethod' \<in> set [JStr ''GET'', JStr ''HEAD'', JStr ''CONNECT'', JStr ''OPTIONS'',
                               JStr ''TRACE''] then
           (case URLSearchParams_new P input of
              Inl e \<Rightarrow> Inl e
            | Inr newSearchParams \<Rightarrow>
                Inr (urlObj\<lparr>searchParams :=
                       foldl (\<lambda>q (key, v). usp_set q key v) (searchParams urlObj) newSearchParams\<rparr>,
                     requestInit))
         else if httpMethod' \<in> set [JStr ''POST'', JStr ''PUT'', JStr ''PATCH'', JStr ''DELETE''] then
           (case find_content_type headers of
              Some contentType \<Rightarrow>
                (if startsWith contentType ''application/x-www-form-urlencoded''
                 then Inr (urlObj, requestInit\<lparr>ri_body := Some (qsStringify P input)\<rparr>)
                 else Inr (urlObj, requestInit\<lparr>ri_body := Some (jsonFlatStringify P input)\<rparr>))
            | None \<Rightarrow> Inr (urlObj, requestInit\<lparr>ri_body := Some (jsonFlatStringify P input)\<rparr>))
         else Inl (Error (''Unknown method '' @ js_toString P httpMethod')))
      else Inr (urlObj, requestInit))"

text \<open>The resolver up to the call of \<^verbatim>\<open>fetch\<close>: the URL and the request it is called with.\<close>

definition build_request ::
  "platform \<Rightarrow> loader_options \<Rightarrow> js_object \<Rightarrow> operation_metadata \<Rightarrow> js \<Rightarrow> js_object \<Rightarrow> js \<Rightarrow> js
    \<Rightarrow> jsvalue + (url \<times> request_init)" where
  "build_request P options operationConfig meta rootValue args context info =
     (let data = interpolationData P rootValue args context info;
          interpolatedBaseUrl = stringInterpolator_parse P (baseUrl options) data;
          interpolatedPath = stringInterpolator_parse P (get_prop operationConfig ''path'') data;
          fullPath = urlJoin P interpolatedBaseUrl interpolatedPath;
          headers = interpolated_headers P options operationConfig data;
          requestInit = \<lparr> ri_method = httpMethod meta, ri_headers = headers, ri_body = None \<rparr>
      in case URL_new P fullPath of
           None \<Rightarrow> Inl TypeError
         | Some urlObj \<Rightarrow>
             apply_input P (httpMethod meta) headers
               (resolveDataByUnionInputType P (get_prop args ''input'')) urlObj requestInit)"

subsection \<open>Response handling\<close>

text \<open>
  The field's return type is \<^verbatim>\<open>field.type\<close> of the field that the composer's \<^verbatim>\<open>getField\<close>
  gives: a type composer of graphql-compose (line 133 calls its \<^verbatim>\<open>getType\<close>), not a type of
  graphql. A composer of an object type, an interface type or an enum type has a
  \<^verbatim>\<open>getFields\<close> member (for an enum it gives the values); the composers of scalars and
  unions, the list and non-null wrappers, and the thunk in which a type not yet built is
  wrapped, have none.
\<close>

datatype graphql_type =
    GraphQLScalarType string
  | GraphQLObjectType string "string list"
  | GraphQLInterfaceType string "string list"
  | GraphQLUnionType string
  | GraphQLEnumType string
  | GraphQLList graphql_type
  | GraphQLNonNull graphql_type

datatype type_composer =
    ScalarTypeComposer string
  | ObjectTypeComposer string "string list"
  | InterfaceTypeComposer string "string list"
  | EnumTypeComposer string "string list"
  | UnionTypeComposer string
  | ListComposer type_composer
  | NonNullComposer type_composer
  | ThunkComposer type_composer

text \<open>
  \<^verbatim>\<open>isScalarType\<close> is the predicate of graphql: whether its argument is an instance of
  \<^verbatim>\<open>GraphQLScalarType\<close>. Its argument can be any object; the resolver hands it a composer.
\<close>

datatype type_object = GraphQLType graphql_type | Composer type_composer

fun isScalarType :: "type_object \<Rightarrow> bool" where
  "isScalarType (GraphQLType (GraphQLScalarType n)) = True"
| "isScalarType t = False"

fun getFields :: "type_composer \<Rightarrow> string list option" where
  "getFields (ObjectTypeComposer n fs) = Some fs"
| "getFields (InterfaceTypeComposer n fs) = Some fs"
| "getFields (EnumTypeComposer n vs) = Some vs"
| "getFields t = None"

text \<open>\<^verbatim>\<open>'getFields' in returnType && name in returnType.getFields()\<close>\<close>

definition declares_field :: "type_composer \<Rightarrow> string \<Rightarrow> bool" where
  "declares_field returnType name =
     (case getFields returnType of None \<Rightarrow> False | Some fs \<Rightarrow> name \<in> set fs)"

text \<open>\<^verbatim>\<open>typeof v === 'object'\<close>\<close>

fun typeof_object :: "js \<Rightarrow> bool" where
  "typeof_object JNull = True"
| "typeof_object (JArr xs) = True"
| "typeof_object (JObj kvs) = True"
| "typeof_object v = False"

definition normalizeError :: "platform \<Rightarrow> js \<Rightarrow> js \<Rightarrow> jsvalue" where
  "normalizeError P errorMessageTemplate error =
     (let errorMessage = stringInterpolator_parse P errorMessageTemplate error
      in if typeof_object error \<and> errorMessage \<noteq> [] then ErrorObject errorMessage error
         else Plain error)"

text \<open>
  Reading \<^verbatim>\<open>errors\<close>, \<^verbatim>\<open>_errors\<close> or \<^verbatim>\<open>error\<close> from the parsed body: a TypeError on null, the
  property of an object, undefined on anything else.
\<close>

fun read_field :: "js \<Rightarrow> string \<Rightarrow> jsvalue + js" where
  "read_field JUndefined k = Inl TypeError"
| "read_field JNull k = Inl TypeError"
| "read_field (JObj kvs) k = Inr (get_prop kvs k)"
| "read_field v k = Inr JUndefined"

text \<open>\<^verbatim>\<open>errors?.length\<close>\<close>

fun optional_length :: "js \<Rightarrow> js" where
  "optional_length (JArr xs) = JNum (real (length xs))"
| "optional_length (JStr s) = JNum (real (length s))"
| "optional_length (JObj kvs) = get_prop kvs ''length''"
| "optional_length v = JUndefined"

text \<open>\<^verbatim>\<open>errors.map(normalizeError)\<close>: only an array has \<^verbatim>\<open>map\<close>.\<close>

fun map_errors :: "(js \<Rightarrow> jsvalue) \<Rightarrow> js \<Rightarrow> jsvalue + jsvalue list" where
  "map_errors f (JArr xs) = Inr (map f xs)"
| "map_errors f v = Inl TypeError"

text \<open>The resolver from the parsed body on.\<close>

definition handle_json ::
  "platform \<Rightarrow> loader_options \<Rightarrow> operation_metadata \<Rightarrow> type_composer \<Rightarrow> js \<Rightarrow> outcome" where
  "handle_json P options meta returnType responseJson =
     (let errorMessageTemplate = js_or (errorMessage options) (JStr ''message'')
      in case read_field responseJson ''errors'' of
           Inl e \<Rightarrow> Throws e
         | Inr errors0 \<Rightarrow>
             (let errors = (if truthy errors0 then errors0
                            else (case read_field responseJson ''_errors'' of
                                    Inl e \<Rightarrow> JUndefined | Inr v \<Rightarrow> v));
                  errorField = (case read_field responseJson ''error'' of
                                  Inl e \<Rightarrow> JUndefined | Inr v \<Rightarrow> v)
              in if truthy (optional_length errors) \<and> \<not> declares_field returnType ''errors'' then
                   (case map_errors (normalizeError P errorMessageTemplate) errors of
                      Inl e \<Rightarrow> Throws e
                    | Inr normalized \<Rightarrow>
                        Returns (AggregateError normalized
                          (rootTypeName meta @ ''.'' @ js_toString P (fieldName meta) @ '' failed'')))
                 else if truthy errorField \<and> \<not> declares_field returnType ''error'' then
                   Returns (normalizeError P errorMessageTemplate errorField)
                 else Returns (Plain responseJson)))"

text \<open>\<^verbatim>\<open>JSON.parse\<close> in its \<^verbatim>\<open>try\<close>, and what follows.\<close>

definition handle_response ::
  "platform \<Rightarrow> loader_options \<Rightarrow> operation_metadata \<Rightarrow> type_composer \<Rightarrow> string \<Rightarrow> outcome" where
  "handle_response P options meta returnType responseText =
     (case JSON_parse P responseText of
        None \<Rightarrow>
          (if isScalarType (Composer returnType) then Returns (Plain (JStr responseText))
           else Throws (Plain (JStr responseText)))
      | Some responseJson \<Rightarrow> handle_json P options meta returnType responseJson)"

text \<open>The function assigned to \<^verbatim>\<open>field.resolve\<close> of an HTTP operation.\<close>

definition http_resolve ::
  "platform \<Rightarrow> loader_options \<Rightarrow> js_object \<Rightarrow> operation_metadata \<Rightarrow> type_composer
    \<Rightarrow> js \<Rightarrow> js_object \<Rightarrow> js \<Rightarrow> js \<Rightarrow> outcome" where
  "http_resolve P options operationConfig meta returnType rootValue args context info =
     (case build_request P options operationConfig meta rootValue args context info of
        Inl e \<Rightarrow> Throws e
      | Inr (urlObj, requestInit) \<Rightarrow>
          (case fetch_text P (URL_toString P urlObj) requestInit of
             Inl e \<Rightarrow> Throws e
           | Inr responseText \<Rightarrow> handle_response P options meta returnType responseText))"

subsection \<open>Pubsub binding and attachment\<close>

definition pubsub_subscribe ::
  "platform \<Rightarrow> js_object \<Rightarrow> js \<Rightarrow> js_object \<Rightarrow> js \<Rightarrow> js \<Rightarrow> outcome" where
  "pubsub_subscribe P operationConfig rootValue args context info =
     (let data = interpolationData P rootValue args context info;
          pubsubTopic = stringInterpolator_parse P (get_prop operationConfig ''pubsubTopic'') data
      in Returns (asyncIterator P pubsubTopic))"

definition pubsub_resolve :: "js \<Rightarrow> js_object \<Rightarrow> js \<Rightarrow> js \<Rightarrow> outcome" where
  "pubsub_resolve rootValue args context info = Returns (Plain rootValue)"

type_synonym resolver = "js \<Rightarrow> js_object \<Rightarrow> js \<Rightarrow> js \<Rightarrow> outcome"

record field_config =
  fc_type :: type_composer
  fc_description :: js
  fc_subscribe :: "resolver option"
  fc_resolve :: "resolver option"

text \<open>
  The body of the loop of \<^verbatim>\<open>addExecutionLogicToComposer\<close> on the field it looks up, without
  the arguments it adds for the interpolation strings.
\<close>

definition attach_execution_logic ::
  "platform \<Rightarrow> loader_options \<Rightarrow> js_object \<Rightarrow> field_config \<Rightarrow> jsvalue + field_config" where
  "attach_execution_logic P options operationConfig field =
     (case getOperationMetadata operationConfig of
        Inl e \<Rightarrow> Inl e
      | Inr meta \<Rightarrow>
          (if isPubSubOperationConfig operationConfig then
             Inr (field\<lparr>
               fc_description := js_or (fc_description field)
                 (JStr (''PubSub Topic: '' @ js_toString P (get_prop operationConfig ''pubsubTopic''))),
               fc_subscribe := Some (pubsub_subscribe P operationConfig),
               fc_resolve := Some pubsub_resolve\<rparr>)
           else if truthy (get_prop operationConfig ''path'') then
             Inr (field\<lparr>
               fc_description := js_or (fc_description field)
                 (JStr (js_toString P (get_prop operationConfig ''method'') @ '' ''
                        @ js_toString P (get_prop operationConfig ''path''))),
               fc_resolve :=
                 Some (http_resolve P options operationConfig meta (fc_type field))\<rparr>)
           else Inr field))"

section \<open>Schema synthesis\<close>

text \<open>
  The composite schema under construction: the object literal \<^verbatim>\<open>finalJsonSchema\<close> and the
  root definitions stored under its \<^verbatim>\<open>properties\<close>.
\<close>

record root_type_definition =
  rtd_type :: string
  rtd_title :: string
  rtd_properties :: "js_object option"

record final_json_schema =
  fjs_type :: string
  fjs_title :: string
  fjs_properties :: "(string \<times> root_type_definition) list"
  fjs_required :: "string list"

text \<open>
  The calls that leave the function, in the order made. \<open>readFileOrUrl\<close> rejects with an
  error whose \<^verbatim>\<open>message\<close>, as the template literal prints it, is the \<open>Inl\<close> value.
\<close>

datatype call =
    ReadFileOrUrl js
  | ToJsonSchema js
  | DereferenceObject final_json_schema
  | HealJSONSchema js
  | ReferenceJSONSchema js

record schema_tools =
  readFileOrUrl :: "js \<Rightarrow> string + js"
  toJsonSchema :: "js \<Rightarrow> jsvalue + js_object"
  dereferenceObject :: "final_json_schema \<Rightarrow> jsvalue + js"
  healJSONSchema :: "js \<Rightarrow> jsvalue + js"
  referenceJSONSchema :: "js \<Rightarrow> jsvalue + js"
  key_of :: "js \<Rightarrow> string"

text \<open>A value used as a property key or printed in a template literal: a string is itself,
  anything else is converted by \<open>key_of\<close>.\<close>

definition property_key :: "schema_tools \<Rightarrow> js \<Rightarrow> string" where
  "property_key T v = (case v of JStr s \<Rightarrow> s | _ \<Rightarrow> key_of T v)"

definition initial_schema :: final_json_schema where
  "initial_schema =
     \<lparr> fjs_type = ''object'', fjs_title = ''_schema'', fjs_properties = [],
       fjs_required = [''query''] \<rparr>"

text \<open>\<^verbatim>\<open>finalJsonSchema.properties[key] = finalJsonSchema.properties[key] || { type: 'object',
  title, properties: {} }\<close>: the definition, and the schema holding it.\<close>

definition root_definition :: "final_json_schema \<Rightarrow> string \<Rightarrow> string \<Rightarrow> root_type_definition" where
  "root_definition schema key title =
     (case map_of (fjs_properties schema) key of
        Some d \<Rightarrow> d
      | None \<Rightarrow> \<lparr> rtd_type = ''object'', rtd_title = title, rtd_properties = Some [] \<rparr>)"

definition store_root ::
  "final_json_schema \<Rightarrow> string \<Rightarrow> root_type_definition \<Rightarrow> final_json_schema" where
  "store_root schema key d = schema\<lparr>fjs_properties := assign (fjs_properties schema) key d\<rparr>"

text \<open>\<^verbatim>\<open>definition.properties[fieldName] = v\<close>, a TypeError when there is no \<^verbatim>\<open>properties\<close>.\<close>

definition set_field ::
  "final_json_schema \<Rightarrow> string \<Rightarrow> root_type_definition \<Rightarrow> string \<Rightarrow> js
    \<Rightarrow> jsvalue + final_json_schema" where
  "set_field schema key d name v =
     (case rtd_properties d of
        None \<Rightarrow> Inl TypeError
      | Some props \<Rightarrow> Inr (store_root schema key (d\<lparr>rtd_properties := Some (assign props name v)\<rparr>)))"

text \<open>Lines 280 to 318: the response side of one operation.\<close>

definition response_side ::
  "schema_tools \<Rightarrow> js_object \<Rightarrow> operation_metadata \<Rightarrow> call list \<times> final_json_schema
    \<Rightarrow> call list \<times> (jsvalue + final_json_schema)" where
  "response_side T operationConfig meta st =
     (let (calls, schema) = st;
          key = operationType meta;
          d0 = root_definition schema key (rootTypeName meta);
          d = d0\<lparr>rtd_properties :=
                  Some (case rtd_properties d0 of None \<Rightarrow> [] | Some props \<Rightarrow> props)\<rparr>;
          name = property_key T (fieldName meta);
          responseSchema = get_prop operationConfig ''responseSchema'';
          responseSample = get_prop operationConfig ''responseSample'';
          responseTypeName = get_prop operationConfig ''responseTypeName''
      in if truthy responseSchema then
           (calls, set_field schema key d name (JObj [(''$ref'', responseSchema)]))
         else if truthy responseSample then
           (case readFileOrUrl T responseSample of
              Inl m \<Rightarrow> (calls @ [ReadFileOrUrl responseSample], Inl (Error (''responseSample - '' @ m)))
            | Inr sample \<Rightarrow>
                (case toJsonSchema T sample of
                   Inl e \<Rightarrow> (calls @ [ReadFileOrUrl responseSample, ToJsonSchema sample], Inl e)
                 | Inr generatedSchema \<Rightarrow>
                     (calls @ [ReadFileOrUrl responseSample, ToJsonSchema sample],
                      set_field schema key d name
                        (JObj (assign generatedSchema ''title'' responseTypeName)))))
         else
           (calls, set_field schema key d name
                   (JObj (assign [(''type'', JStr ''object'')] ''title'' responseTypeName))))"

text \<open>Lines 320 to 352: the request side.\<close>

definition request_side ::
  "schema_tools \<Rightarrow> js_object \<Rightarrow> operation_metadata \<Rightarrow> call list \<times> final_json_schema
    \<Rightarrow> call list \<times> (jsvalue + final_json_schema)" where
  "request_side T operationConfig meta st =
     (let (calls, schema) = st;
          rootTypeInputPropertyName = operationType meta @ ''Input'';
          rootInputTypeName = rootTypeName meta @ ''Input'';
          d = root_definition schema rootTypeInputPropertyName rootInputTypeName;
          schema1 = store_root schema rootTypeInputPropertyName d;
          name = property_key T (fieldName meta);
          requestSchema = get_prop operationConfig ''requestSchema'';
          requestSample = get_prop operationConfig ''requestSample'';
          requestTypeName = get_prop operationConfig ''requestTypeName''
      in if truthy requestSchema then
           (calls, set_field schema rootTypeInputPropertyName d name (JObj [(''$ref'', requestSchema)]))
         else if truthy requestSample then
           (case readFileOrUrl T requestSample of
              Inl m \<Rightarrow>
                (calls @ [ReadFileOrUrl requestSample],
                 Inl (Error (''requestSample:'' @ property_key T requestSample
                             @ '' cannot be read - '' @ m)))
            | Inr sample \<Rightarrow>
                (case toJsonSchema T sample of
                   Inl e \<Rightarrow> (calls @ [ReadFileOrUrl requestSample, ToJsonSchema sample], Inl e)
                 | Inr generatedSchema \<Rightarrow>
                     (calls @ [ReadFileOrUrl requestSample, ToJsonSchema sample],
                      set_field schema rootTypeInputPropertyName d name
                        (JObj (assign generatedSchema ''title'' requestTypeName)))))
         else (calls, Inr schema1))"

text \<open>The loop over \<^verbatim>\<open>options.operations\<close>; a throw leaves it.\<close>

fun process_operations ::
  "schema_tools \<Rightarrow> js_object list \<Rightarrow> call list \<times> final_json_schema
    \<Rightarrow> call list \<times> (jsvalue + final_json_schema)" where
  "process_operations T [] st = (fst st, Inr (snd st))"
| "process_operations T (operationConfig # rest) st =
     (case getOperationMetadata operationConfig of
        Inl e \<Rightarrow> (fst st, Inl e)
      | Inr meta \<Rightarrow>
          (case response_side T operationConfig meta st of
             (calls1, Inl e) \<Rightarrow> (calls1, Inl e)
           | (calls1, Inr schema1) \<Rightarrow>
               (case request_side T operationConfig meta (calls1, schema1) of
                  (calls2, Inl e) \<Rightarrow> (calls2, Inl e)
                | (calls2, Inr schema2) \<Rightarrow> process_operations T rest (calls2, schema2))))"

definition buildFinalJSONSchema :: "schema_tools \<Rightarrow> loader_options \<Rightarrow> call list \<times> (jsvalue + js)" where
  "buildFinalJSONSchema T options =
     (case process_operations T (operations options) ([], initial_schema) of
        (calls, Inl e) \<Rightarrow> (calls, Inl e)
      | (calls, Inr finalJsonSchema) \<Rightarrow>
          (case dereferenceObject T finalJsonSchema of
             Inl e \<Rightarrow> (calls @ [DereferenceObject finalJsonSchema], Inl e)
           | Inr fullyDeferencedSchema \<Rightarrow>
               (case healJSONSchema T fullyDeferencedSchema of
                  Inl e \<Rightarrow>
                    (calls @ [DereferenceObject finalJsonSchema, HealJSONSchema fullyDeferencedSchema],
                     Inl e)
                | Inr healedSchema \<Rightarrow>
                    (calls @ [DereferenceObject finalJsonSchema, HealJSONSchema fullyDeferencedSchema,
                            ReferenceJSONSchema healedSchema],
                     referenceJSONSchema T healedSchema))))"

text \<open>Whether a call belongs to the dereference, heal and re-reference pipeline.\<close>

fun is_pipeline_call :: "call \<Rightarrow> bool" where
  "is_pipeline_call (DereferenceObject s) = True"
| "is_pipeline_call (HealJSONSchema s) = True"
| "is_pipeline_call (ReferenceJSONSchema s) = True"
| "is_pipeline_call c = False"

section \<open>Configuration loader\<close>








section \<open>Notions used in the statements\<close>



text \<open>\<^verbatim>\<open>schema.properties[key].properties[name]\<close>\<close>

definition schema_field :: "final_json_schema \<Rightarrow> string \<Rightarrow> string \<Rightarrow> js option" where
  "schema_field schema key name =
     (case map_of (fjs_properties schema) key of
        None \<Rightarrow> None
      | Some d \<Rightarrow> (case rtd_properties d of None \<Rightarrow> None | Some props \<Rightarrow> map_of props name))"

section \<open>The specification's root type rule\<close>

text \<open>
  The rule as the specification words it: pubsub (a config carrying \<^verbatim>\<open>pubsubTopic\<close>) gives
  \<^verbatim>\<open>Subscription\<close>; else a declared type \<^verbatim>\<open>mutation\<close> gives \<^verbatim>\<open>Mutation\<close>; else \<^verbatim>\<open>Query\<close>.
\<close>

definition spec_rootTypeName :: "js_object \<Rightarrow> string" where
  "spec_rootTypeName operationConfig =
     (if has_key ''pubsubTopic'' operationConfig then ''Subscription''
      else if get_prop operationConfig ''type'' = JStr ''mutation'' then ''Mutation''
      else ''Query'')"

section \<open>The specification's tests on the return type\<close>

text \<open>
  The declared return type of a field is the type behind the non-null wrapper and the
  thunk. The specification asks whether that type is a scalar, and whether it declares a
  field of a given name, which an object or an interface type can.
\<close>

fun declared_type :: "type_composer \<Rightarrow> type_composer" where
  "declared_type (NonNullComposer t) = declared_type t"
| "declared_type (ThunkComposer t) = declared_type t"
| "declared_type t = t"

definition spec_is_scalar :: "type_composer \<Rightarrow> bool" where
  "spec_is_scalar returnType =
     (case declared_type returnType of ScalarTypeComposer n \<Rightarrow> True | _ \<Rightarrow> False)"

definition spec_declares_field :: "type_composer \<Rightarrow> string \<Rightarrow> bool" where
  "spec_declares_field returnType name =
     (case declared_type returnType of
        ObjectTypeComposer n fs \<Rightarrow> name \<in> set fs
      | InterfaceTypeComposer n fs \<Rightarrow> name \<in> set fs
      | _ \<Rightarrow> False)"

section \<open>Sample inputs\<close>

definition sample_platform :: platform where
  "sample_platform =
     \<lparr> env = JObj [],
       stringInterpolator_parse = (\<lambda>template data. case template of JStr s \<Rightarrow> s | _ \<Rightarrow> []),
       urlJoin = (\<lambda>a b. a @ b),
       URL_new = (\<lambda>s. if s = [] then None else Some \<lparr> url_href = s, searchParams = [] \<rparr>),
       URL_toString = url_href,
       ToString = (\<lambda>v. ''[object]''),
       URLSearchParams_init = (\<lambda>v. Inr []),
       resolveDataByUnionInputType = (\<lambda>v. v),
       qsStringify = (\<lambda>v. ''form''),
       jsonFlatStringify = (\<lambda>v. ''json''),
       fetch_text = (\<lambda>u r. Inr ''plain text''),
       JSON_parse = (\<lambda>s. None),
       asyncIterator = (\<lambda>topic. Plain (JStr topic)) \<rparr>"

definition sample_options :: loader_options where
  "sample_options =
     \<lparr> baseUrl = JStr ''http://api.test'', operationHeaders = JUndefined,
       errorMessage = JUndefined, operations = [] \<rparr>"

definition sample_meta :: operation_metadata where
  "sample_meta =
     \<lparr> httpMethod = JStr ''GET'', operationType = ''query'', rootTypeName = ''Query'',
       fieldName = JStr ''getUser'' \<rparr>"

definition pubsub_config :: js_object where
  "pubsub_config =
     [(''type'', JStr ''subscription''), (''field'', JStr ''onEvent''),
      (''pubsubTopic'', JStr ''events'')]"

definition capital_topic_config :: js_object where
  "capital_topic_config =
     [(''type'', JStr ''subscription''), (''field'', JStr ''onEvent''),
      (''pubSubTopic'', JStr ''events'')]"

definition http_subscription_config :: js_object where
  "http_subscription_config =
     [(''type'', JStr ''subscription''), (''field'', JStr ''ticks''), (''path'', JStr ''/ticks'')]"

definition errors_body :: js_object where
  "errors_body = [(''errors'', JArr [JObj [(''message'', JStr ''x'')]])]"

definition motd_config :: js_object where
  "motd_config = [(''type'', JStr ''query''), (''field'', JStr ''motd''), (''path'', JStr ''/motd'')]"

definition motd_meta :: operation_metadata where
  "motd_meta =
     \<lparr> httpMethod = JStr ''GET'', operationType = ''query'', rootTypeName = ''Query'',
       fieldName = JStr ''motd'' \<rparr>"

definition json_header_options :: loader_options where
  "json_header_options =
     \<lparr> baseUrl = JStr ''http://api.test'',
       operationHeaders = JObj [(''Content-Type'', JStr ''application/json'')],
       errorMessage = JUndefined, operations = [] \<rparr>"

definition form_config :: js_object where
  "form_config =
     [(''type'', JStr ''mutation''), (''field'', JStr ''addUser''), (''path'', JStr ''/users''),
      (''method'', JStr ''POST''),
      (''headers'', JObj [(''content-type'', JStr ''application/x-www-form-urlencoded'')])]"

definition post_config :: js_object where
  "post_config =
     [(''type'', JStr ''mutation''), (''field'', JStr ''addUser''), (''path'', JStr ''/users'')]"

definition post_meta :: operation_metadata where
  "post_meta =
     \<lparr> httpMethod = JStr ''POST'', operationType = ''mutation'', rootTypeName = ''Mutation'',
       fieldName = JStr ''addUser'' \<rparr>"

definition user_args :: js_object where
  "user_args = [(''input'', JObj [(''name'', JStr ''ann'')])]"

definition search_config :: js_object where
  "search_config =
     [(''type'', JStr ''query''), (''field'', JStr ''search''), (''path'', JStr ''/search''),
      (''method'', JStr ''get'')]"

definition search_meta :: operation_metadata where
  "search_meta =
     \<lparr> httpMethod = JStr ''get'', operationType = ''query'', rootTypeName = ''Query'',
       fieldName = JStr ''search'' \<rparr>"

definition search_args :: js_object where
  "search_args = [(''input'', JObj [(''q'', JStr ''new''), (''lang'', JStr ''en'')])]"

definition query_platform :: platform where
  "query_platform =
     sample_platform\<lparr>URL_new :=
       (\<lambda>s. Some \<lparr> url_href = s, searchParams = [(''q'', ''old''), (''page'', ''1'')] \<rparr>)\<rparr>"

definition sample_tools :: schema_tools where
  "sample_tools =
     \<lparr> readFileOrUrl = (\<lambda>sample. Inl ''ENOENT''),
       toJsonSchema = (\<lambda>sample. Inr [(''type'', JStr ''object'')]),
       dereferenceObject = (\<lambda>schema. Inr (JObj [])),
       healJSONSchema = (\<lambda>schema. Inr schema),
       referenceJSONSchema = (\<lambda>schema. Inr schema),
       key_of = (\<lambda>v. ''[object]'') \<rparr>"

definition schema_config :: js_object where
  "schema_config =
     [(''type'', JStr ''query''), (''field'', JStr ''getUser''), (''path'', JStr ''/user''),
      (''responseSchema'', JStr ''user.json''), (''responseSample'', JStr ''missing.json'')]"

definition sample_config :: js_object where
  "sample_config =
     [(''type'', JStr ''query''), (''field'', JStr ''listUsers''), (''path'', JStr ''/users''),
      (''responseSample'', JStr ''missing.json'')]"

definition request_sample_config :: js_object where
  "request_sample_config =
     [(''type'', JStr ''mutation''), (''field'', JStr ''addUser''), (''path'', JStr ''/users''),
      (''requestSample'', JStr ''absent.json'')]"

definition options_with :: "js_object list \<Rightarrow> loader_options" where
  "options_with ops =
     \<lparr> baseUrl = JStr ''http://api.test'', operationHeaders = JUndefined,
       errorMessage = JUndefined, operations = ops \<rparr>"

definition getUser_meta :: operation_metadata where
  "getUser_meta =
     \<lparr> httpMethod = JStr ''GET'', operationType = ''query'', rootTypeName = ''Query'',
       fieldName = JStr ''getUser'' \<rparr>"


text \<open>A server that answers \<^verbatim>\<open>{}\<close>.\<close>

definition json_platform :: platform where
  "json_platform =
     sample_platform\<lparr>fetch_text := (\<lambda>u r. Inr ''{}''),
       JSON_parse := (\<lambda>s. if s = ''{}'' then Some (JObj []) else None)\<rparr>"

section \<open>Classification and metadata\<close>

text \<open>
  C1. An operation is to be pubsub-kind exactly when its config carries \<^verbatim>\<open>pubsubTopic\<close>, the
  property the interface declares and the binding reads. The classifier asks for the key
  \<^verbatim>\<open>pubSubTopic\<close> instead: a subscription config with \<^verbatim>\<open>pubsubTopic: events\<close> is not classified
  as pubsub, its metadata name the root type \<^verbatim>\<open>Mutation\<close> and the method \<^verbatim>\<open>GET\<close>, and, having
  no \<^verbatim>\<open>path\<close> either, its field gets neither \<^verbatim>\<open>subscribe\<close> nor \<^verbatim>\<open>resolve\<close>. A config with
  \<^verbatim>\<open>pubSubTopic: events\<close> is classified as pubsub, and its \<^verbatim>\<open>subscribe\<close> interpolates the
  undefined \<^verbatim>\<open>pubsubTopic\<close>.
\<close>

theorem pubsubTopic_config_not_classified:
  "has_key ''pubsubTopic'' pubsub_config
   \<and> isPubSubOperationConfig pubsub_config = False
   \<and> getOperationMetadata pubsub_config =
       Inr \<lparr> httpMethod = JStr ''GET'', operationType = ''subscription'',
             rootTypeName = ''Mutation'', fieldName = JStr ''onEvent'' \<rparr>
   \<and> attach_execution_logic P options pubsub_config field = Inr field
   \<and> isPubSubOperationConfig capital_topic_config
   \<and> pubsub_subscribe P capital_topic_config rootValue args context info =
       Returns (asyncIterator P
         (stringInterpolator_parse P JUndefined (interpolationData P rootValue args context info)))"
  by (simp add: pubsub_config_def capital_topic_config_def has_key_def isPubSubOperationConfig_def
      getOperationMetadata_def attach_execution_logic_def pubsub_subscribe_def get_prop_def
      toLowerCase_def lower_char_def)

text \<open>
  C2, as stated, fails: an HTTP operation (no pubsub topic under either spelling) declared
  with type \<^verbatim>\<open>subscription\<close> gets the root type \<^verbatim>\<open>Mutation\<close>, where the rule of the
  specification gives \<^verbatim>\<open>Query\<close>.
\<close>

theorem rootTypeName_counterexample:
  "map_sum id rootTypeName (getOperationMetadata http_subscription_config) = Inr ''Mutation''
   \<and> spec_rootTypeName http_subscription_config = ''Query''"
  by (simp add: http_subscription_config_def spec_rootTypeName_def has_key_def
      isPubSubOperationConfig_def getOperationMetadata_def get_prop_def toLowerCase_def
      lower_char_def)

text \<open>
  C2, amended. For every operation config that carries no pubsub topic (neither
  \<^verbatim>\<open>pubsubTopic\<close> nor \<^verbatim>\<open>pubSubTopic\<close>) and whose type is a string: the root type is \<^verbatim>\<open>Query\<close>
  when the type in lower case is \<^verbatim>\<open>query\<close> and \<^verbatim>\<open>Mutation\<close> in every other case; the HTTP
  method is the configured method when that is truthy, otherwise \<^verbatim>\<open>POST\<close> when the type in
  lower case is \<^verbatim>\<open>mutation\<close> and \<^verbatim>\<open>GET\<close> for all others.
\<close>

theorem getOperationMetadata_http:
  assumes "\<not> has_key ''pubsubTopic'' operationConfig"
    and "\<not> has_key ''pubSubTopic'' operationConfig"
    and "get_prop operationConfig ''type'' = JStr t"
  shows "\<exists>meta. getOperationMetadata operationConfig = Inr meta
     \<and> rootTypeName meta = (if toLowerCase t = ''query'' then ''Query'' else ''Mutation'')
     \<and> httpMethod meta =
         (if truthy (get_prop operationConfig ''method'') then get_prop operationConfig ''method''
          else if toLowerCase t = ''mutation'' then JStr ''POST'' else JStr ''GET'')"
  using assms by (simp add: getOperationMetadata_def isPubSubOperationConfig_def Let_def)

text \<open>C2, witness: a mutation without a method, its type written with a capital.\<close>

theorem getOperationMetadata_http_witness:
  "\<not> has_key ''pubsubTopic'' [(''type'', JStr ''Mutation''), (''field'', JStr ''addUser'')]
   \<and> (\<exists>meta. getOperationMetadata [(''type'', JStr ''Mutation''), (''field'', JStr ''addUser'')]
          = Inr meta
        \<and> rootTypeName meta = ''Mutation'' \<and> httpMethod meta = JStr ''POST'')"
  using getOperationMetadata_http
    [of "[(''type'', JStr ''Mutation''), (''field'', JStr ''addUser'')]" "''Mutation''"]
  by (simp add: has_key_def get_prop_def toLowerCase_def lower_char_def)

section \<open>Placeholders in the configuration loader\<close>












section \<open>Response handling\<close>

text \<open>The resolver on a parsed body that is an object.\<close>

lemma handle_json_object:
  "handle_json P options meta returnType (JObj kvs) =
     (let template = js_or (errorMessage options) (JStr ''message'');
          errors = js_or (get_prop kvs ''errors'') (get_prop kvs ''_errors'')
      in if truthy (optional_length errors) \<and> \<not> declares_field returnType ''errors'' then
           (case map_errors (normalizeError P template) errors of
              Inl e \<Rightarrow> Throws e
            | Inr normalized \<Rightarrow>
                Returns (AggregateError normalized
                  (rootTypeName meta @ ''.'' @ js_toString P (fieldName meta) @ '' failed'')))
         else if truthy (get_prop kvs ''error'') \<and> \<not> declares_field returnType ''error'' then
           Returns (normalizeError P template (get_prop kvs ''error''))
         else Returns (Plain (JObj kvs)))"
  by (simp add: handle_json_def js_or_def Let_def)

lemma normalizeError_not_aggregate: "normalizeError P template e \<noteq> AggregateError entries message"
  by (simp add: normalizeError_def Let_def)

lemma map_errors_Inr: "map_errors f v = Inr ys \<Longrightarrow> \<exists>es. v = JArr es \<and> ys = map f es"
  by (cases v) auto

lemma handle_json_no_fields:
  assumes "read_field responseJson ''errors'' = Inr JUndefined"
    and "read_field responseJson ''_errors'' = Inr JUndefined"
    and "read_field responseJson ''error'' = Inr JUndefined"
  shows "handle_json P options meta returnType responseJson = Returns (Plain responseJson)"
  using assms by (simp add: handle_json_def Let_def)

lemma aggregate_from_object:
  assumes "handle_json P options meta returnType (JObj kvs) = Returns (AggregateError entries message)"
  shows "\<exists>es. es \<noteq> []
           \<and> js_or (get_prop kvs ''errors'') (get_prop kvs ''_errors'') = JArr es"
proof -
  let ?errors = "js_or (get_prop kvs ''errors'') (get_prop kvs ''_errors'')"
  let ?template = "js_or (errorMessage options) (JStr ''message'')"
  have fires: "truthy (optional_length ?errors) \<and> \<not> declares_field returnType ''errors''"
    using assms by (auto simp: handle_json_object Let_def normalizeError_not_aggregate split: if_splits)
  with assms obtain ys where "map_errors (normalizeError P ?template) ?errors = Inr ys"
    by (auto simp: handle_json_object Let_def split: sum.splits)
  then obtain es where es: "?errors = JArr es"
    using map_errors_Inr by blast
  with fires have "es \<noteq> []"
    by auto
  with es show ?thesis
    by blast
qed

text \<open>
  C3. The comment in the resolver says that a return type with a field \<^verbatim>\<open>errors\<close> switches
  the detection off, and the specification promises the body as data then. The test looks
  for \<^verbatim>\<open>getFields\<close> on \<^verbatim>\<open>field.type\<close> itself and never unwraps it. Against the object type
  \<^verbatim>\<open>Reply\<close> with a field \<^verbatim>\<open>errors\<close>, wrapped in a thunk or in a non-null wrapper, the body
  \<^verbatim>\<open>{"errors":[{"message":"x"}]}\<close> is still replaced by the aggregated error. And against an
  enum with a value named \<^verbatim>\<open>errors\<close>, which declares no field, the body is returned.
\<close>

theorem declared_errors_still_aggregated:
  "spec_declares_field (ThunkComposer (ObjectTypeComposer ''Reply'' [''errors''])) ''errors''
   \<and> handle_json sample_platform sample_options sample_meta
        (ThunkComposer (ObjectTypeComposer ''Reply'' [''errors''])) (JObj errors_body) =
       Returns (AggregateError [ErrorObject ''message'' (JObj [(''message'', JStr ''x'')])]
                  ''Query.getUser failed'')
   \<and> spec_declares_field (NonNullComposer (ObjectTypeComposer ''Reply'' [''errors''])) ''errors''
   \<and> handle_json sample_platform sample_options sample_meta
        (NonNullComposer (ObjectTypeComposer ''Reply'' [''errors''])) (JObj errors_body) =
       Returns (AggregateError [ErrorObject ''message'' (JObj [(''message'', JStr ''x'')])]
                  ''Query.getUser failed'')
   \<and> \<not> spec_declares_field (EnumTypeComposer ''Kind'' [''errors'']) ''errors''
   \<and> handle_json sample_platform sample_options sample_meta
        (EnumTypeComposer ''Kind'' [''errors'']) (JObj errors_body) = Returns (Plain (JObj errors_body))"
  by (simp add: handle_json_object errors_body_def get_prop_def declares_field_def
      spec_declares_field_def js_or_def normalizeError_def js_toString_def sample_platform_def
      sample_options_def sample_meta_def Let_def)

text \<open>
  C10. The resolver returns an aggregated error only when the value read from \<^verbatim>\<open>errors\<close>, or
  from \<^verbatim>\<open>_errors\<close> when \<^verbatim>\<open>errors\<close> is absent or otherwise falsy, is a non-empty array; a body
  whose \<^verbatim>\<open>errors\<close> is the empty array and whose \<^verbatim>\<open>error\<close> is falsy is returned unchanged.
\<close>

theorem aggregation_requires_nonempty:
  "(handle_json P options meta returnType responseJson = Returns (AggregateError entries message) \<longrightarrow>
      (\<exists>es. es \<noteq> []
         \<and> (read_field responseJson ''errors'' = Inr (JArr es)
            \<or> (\<exists>v. read_field responseJson ''errors'' = Inr v \<and> \<not> truthy v)
               \<and> read_field responseJson ''_errors'' = Inr (JArr es))))
   \<and> (get_prop kvs ''errors'' = JArr [] \<and> \<not> truthy (get_prop kvs ''error'') \<longrightarrow>
        handle_json P options meta returnType (JObj kvs) = Returns (Plain (JObj kvs)))"
proof (intro conjI impI)
  assume agg: "handle_json P options meta returnType responseJson = Returns (AggregateError entries message)"
  show "\<exists>es. es \<noteq> []
         \<and> (read_field responseJson ''errors'' = Inr (JArr es)
            \<or> (\<exists>v. read_field responseJson ''errors'' = Inr v \<and> \<not> truthy v)
               \<and> read_field responseJson ''_errors'' = Inr (JArr es))"
  proof (cases responseJson)
    case (JObj kvs')
    with agg obtain es where "es \<noteq> []"
      and "js_or (get_prop kvs' ''errors'') (get_prop kvs' ''_errors'') = JArr es"
      using aggregate_from_object by blast
    with JObj show ?thesis
      by (auto simp: js_or_def split: if_splits)
  qed (use agg in \<open>simp_all add: handle_json_def handle_json_no_fields\<close>)
next
  assume "get_prop kvs ''errors'' = JArr [] \<and> \<not> truthy (get_prop kvs ''error'')"
  then show "handle_json P options meta returnType (JObj kvs) = Returns (Plain (JObj kvs))"
    by (simp add: handle_json_object js_or_def Let_def)
qed

text \<open>
  C10, witness: a body with only \<^verbatim>\<open>_errors\<close>, which is aggregated, and a body with an empty
  \<^verbatim>\<open>errors\<close>, which is returned, against the object type \<^verbatim>\<open>User\<close> in its thunk.
\<close>

theorem aggregation_requires_nonempty_witness:
  "handle_json sample_platform sample_options sample_meta
     (ThunkComposer (ObjectTypeComposer ''User'' [''id'']))
     (JObj [(''_errors'', JArr [JStr ''e1''])]) =
     Returns (AggregateError [Plain (JStr ''e1'')] ''Query.getUser failed'')
   \<and> (\<exists>es. es \<noteq> []
        \<and> (read_field (JObj [(''_errors'', JArr [JStr ''e1''])]) ''errors'' = Inr (JArr es)
           \<or> (\<exists>v. read_field (JObj [(''_errors'', JArr [JStr ''e1''])]) ''errors'' = Inr v \<and> \<not> truthy v)
              \<and> read_field (JObj [(''_errors'', JArr [JStr ''e1''])]) ''_errors'' = Inr (JArr es)))
   \<and> handle_json sample_platform sample_options sample_meta
        (ThunkComposer (ObjectTypeComposer ''User'' [''id'']))
        (JObj [(''errors'', JArr []), (''id'', JNum 1)]) =
        Returns (Plain (JObj [(''errors'', JArr []), (''id'', JNum 1)]))"
proof -
  have fired: "handle_json sample_platform sample_options sample_meta
     (ThunkComposer (ObjectTypeComposer ''User'' [''id'']))
     (JObj [(''_errors'', JArr [JStr ''e1''])]) =
     Returns (AggregateError [Plain (JStr ''e1'')] ''Query.getUser failed'')"
    by (simp add: handle_json_object get_prop_def declares_field_def js_or_def normalizeError_def
        js_toString_def sample_platform_def sample_options_def sample_meta_def)
  have empty: "get_prop [(''errors'', JArr []), (''id'', JNum 1)] ''errors'' = JArr []
     \<and> \<not> truthy (get_prop [(''errors'', JArr []), (''id'', JNum 1)] ''error'')"
    by (simp add: get_prop_def)
  from aggregation_requires_nonempty
    [of sample_platform sample_options sample_meta "ThunkComposer (ObjectTypeComposer ''User'' [''id''])"
        "JObj [(''_errors'', JArr [JStr ''e1''])]" "[Plain (JStr ''e1'')]" "''Query.getUser failed''"
        "[(''errors'', JArr []), (''id'', JNum 1)]"]
    fired empty
  show ?thesis
    by blast
qed

text \<open>Whatever the return type, a response that does not parse as JSON is thrown: no
  composer is an instance of \<^verbatim>\<open>GraphQLScalarType\<close>.\<close>

lemma non_json_response_thrown:
  assumes "build_request P options operationConfig meta rootValue args context info
             = Inr (urlObj, requestInit)"
    and "fetch_text P (URL_toString P urlObj) requestInit = Inr responseText"
    and "JSON_parse P responseText = None"
  shows "http_resolve P options operationConfig meta returnType rootValue args context info
           = Throws (Plain (JStr responseText))"
  using assms by (simp add: http_resolve_def handle_response_def)

lemma motd_request:
  "build_request sample_platform sample_options motd_config motd_meta JNull [] JNull JNull =
     Inr (\<lparr> url_href = ''http://api.test/motd'', searchParams = [] \<rparr>,
          \<lparr> ri_method = JStr ''GET'', ri_headers = [], ri_body = None \<rparr>)"
  by (simp add: build_request_def sample_platform_def sample_options_def motd_config_def
      motd_meta_def get_prop_def interpolated_headers_def spread_def own_entries_def
      apply_input_def Let_def)

text \<open>
  C4. The comment in the \<^verbatim>\<open>catch\<close> says that the result might be defined as scalar, and the
  specification promises the raw text then. The test is graphql's \<^verbatim>\<open>isScalarType\<close> on
  \<^verbatim>\<open>field.type\<close>, which is a composer and never a \<^verbatim>\<open>GraphQLScalarType\<close>: for the field \<^verbatim>\<open>motd\<close>
  declared \<^verbatim>\<open>String\<close>, bare or non-null, the body \<^verbatim>\<open>plain text\<close> is thrown, not returned. Against
  a type that is not a scalar the text is thrown, as the specification says.
\<close>

theorem non_json_scalar_field_throws:
  "getOperationMetadata motd_config = Inr motd_meta
   \<and> JSON_parse sample_platform ''plain text'' = None
   \<and> spec_is_scalar (ScalarTypeComposer ''String'')
   \<and> http_resolve sample_platform sample_options motd_config motd_meta
        (ScalarTypeComposer ''String'') JNull [] JNull JNull = Throws (Plain (JStr ''plain text''))
   \<and> spec_is_scalar (NonNullComposer (ScalarTypeComposer ''String''))
   \<and> http_resolve sample_platform sample_options motd_config motd_meta
        (NonNullComposer (ScalarTypeComposer ''String'')) JNull [] JNull JNull
       = Throws (Plain (JStr ''plain text''))
   \<and> \<not> spec_is_scalar (ThunkComposer (ObjectTypeComposer ''Motd'' [''text'']))
   \<and> http_resolve sample_platform sample_options motd_config motd_meta
        (ThunkComposer (ObjectTypeComposer ''Motd'' [''text''])) JNull [] JNull JNull
       = Throws (Plain (JStr ''plain text''))"
proof -
  have f: "fetch_text sample_platform
             (URL_toString sample_platform \<lparr> url_href = ''http://api.test/motd'', searchParams = [] \<rparr>)
             \<lparr> ri_method = JStr ''GET'', ri_headers = [], ri_body = None \<rparr> = Inr ''plain text''"
    and p: "JSON_parse sample_platform ''plain text'' = None"
    by (simp_all add: sample_platform_def)
  have meta: "getOperationMetadata motd_config = Inr motd_meta"
    by (simp add: getOperationMetadata_def isPubSubOperationConfig_def has_key_def motd_config_def
        motd_meta_def get_prop_def toLowerCase_def lower_char_def)
  from non_json_response_thrown [OF motd_request f p] meta p
  show ?thesis
    by (simp add: spec_is_scalar_def)
qed

section \<open>Request construction\<close>










lemma build_request_apply_input:
  assumes "data = interpolationData P rootValue args context info"
    and "URL_new P (urlJoin P (stringInterpolator_parse P (baseUrl options) data)
           (stringInterpolator_parse P (get_prop operationConfig ''path'') data)) = Some urlObj"
  shows "build_request P options operationConfig meta rootValue args context info =
           apply_input P (httpMethod meta) (interpolated_headers P options operationConfig data)
             (resolveDataByUnionInputType P (get_prop args ''input'')) urlObj
             \<lparr> ri_method = httpMethod meta,
               ri_headers = interpolated_headers P options operationConfig data,
               ri_body = None \<rparr>"
  using assms by (simp add: build_request_def Let_def)



lemma apply_input_unknown:
  assumes "truthy input"
    and "httpMethod' \<notin> set [JStr ''GET'', JStr ''HEAD'', JStr ''CONNECT'', JStr ''OPTIONS'', JStr ''TRACE'',
           JStr ''POST'', JStr ''PUT'', JStr ''PATCH'', JStr ''DELETE'']"
  shows "apply_input P httpMethod' headers input urlObj requestInit =
           Inl (Error (''Unknown method '' @ js_toString P httpMethod'))"
  using assms unfolding apply_input_def
  by simp

lemmas sample_simps =
  sample_platform_def sample_options_def json_header_options_def form_config_def post_config_def
  post_meta_def user_args_def search_config_def search_meta_def search_args_def query_platform_def
  motd_config_def motd_meta_def
  build_request_def interpolationData_def interpolated_headers_def spread_def own_entries_def
  apply_input_def URLSearchParams_new_def find_content_type_def startsWith_def get_prop_def
  toLowerCase_def lower_char_def js_toString_def Let_def




text \<open>
  C6, as stated, fails: with the configured method \<^verbatim>\<open>get\<close> (in lower case, so none of the
  nine) and no input argument, nothing is raised; the request is fetched, and the body \<^verbatim>\<open>{}\<close>
  of the response is returned.
\<close>

theorem unknown_method_counterexample:
  "getOperationMetadata search_config = Inr search_meta
   \<and> httpMethod search_meta \<notin> set [JStr ''GET'', JStr ''HEAD'', JStr ''CONNECT'', JStr ''OPTIONS'',
        JStr ''TRACE'', JStr ''POST'', JStr ''PUT'', JStr ''PATCH'', JStr ''DELETE'']
   \<and> build_request json_platform sample_options search_config search_meta JNull [] JNull JNull =
       Inr (\<lparr> url_href = ''http://api.test/search'', searchParams = [] \<rparr>,
            \<lparr> ri_method = JStr ''get'', ri_headers = [], ri_body = None \<rparr>)
   \<and> http_resolve json_platform sample_options search_config search_meta
        (ThunkComposer (ObjectTypeComposer ''Hits'' [''total''])) JNull [] JNull JNull
       = Returns (Plain (JObj []))"
  by (simp add: sample_simps json_platform_def getOperationMetadata_def isPubSubOperationConfig_def
      has_key_def http_resolve_def handle_response_def handle_json_def js_or_def declares_field_def)

text \<open>
  C6, amended. For every HTTP resolver invocation whose URL parses, whose resolved input is
  truthy and whose method is none of \<^verbatim>\<open>GET\<close>, \<^verbatim>\<open>HEAD\<close>, \<^verbatim>\<open>CONNECT\<close>, \<^verbatim>\<open>OPTIONS\<close>, \<^verbatim>\<open>TRACE\<close>, \<^verbatim>\<open>POST\<close>,
  \<^verbatim>\<open>PUT\<close>, \<^verbatim>\<open>PATCH\<close>, \<^verbatim>\<open>DELETE\<close>, the resolver throws the error \<^verbatim>\<open>Unknown method\<close> followed by
  the method.
\<close>

theorem unknown_method_raises:
  assumes data: "data = interpolationData P rootValue args context info"
    and url: "URL_new P (urlJoin P (stringInterpolator_parse P (baseUrl options) data)
                (stringInterpolator_parse P (get_prop operationConfig ''path'') data)) = Some urlObj"
    and truthy: "truthy (resolveDataByUnionInputType P (get_prop args ''input''))"
    and unknown: "httpMethod meta \<notin> set [JStr ''GET'', JStr ''HEAD'', JStr ''CONNECT'', JStr ''OPTIONS'',
                    JStr ''TRACE'', JStr ''POST'', JStr ''PUT'', JStr ''PATCH'', JStr ''DELETE'']"
  shows "http_resolve P options operationConfig meta returnType rootValue args context info =
           Throws (Error (''Unknown method '' @ js_toString P (httpMethod meta)))"
  using build_request_apply_input [OF data url, of meta] apply_input_unknown [OF truthy unknown]
  by (simp add: http_resolve_def)

text \<open>C6, witness: the method \<^verbatim>\<open>get\<close> with an input object.\<close>

theorem unknown_method_raises_witness:
  "truthy (resolveDataByUnionInputType sample_platform (get_prop search_args ''input''))
   \<and> http_resolve sample_platform sample_options search_config search_meta
        (ScalarTypeComposer ''String'') JNull search_args JNull JNull =
       Throws (Error ''Unknown method get'')"
proof -
  have u: "URL_new sample_platform
             (urlJoin sample_platform
               (stringInterpolator_parse sample_platform (baseUrl sample_options)
                  (interpolationData sample_platform JNull search_args JNull JNull))
               (stringInterpolator_parse sample_platform (get_prop search_config ''path'')
                  (interpolationData sample_platform JNull search_args JNull JNull)))
           = Some \<lparr> url_href = ''http://api.test/search'', searchParams = [] \<rparr>"
    by (simp add: sample_simps)
  have t: "truthy (resolveDataByUnionInputType sample_platform (get_prop search_args ''input''))"
    by (simp add: sample_simps)
  have m: "httpMethod search_meta \<notin> set [JStr ''GET'', JStr ''HEAD'', JStr ''CONNECT'', JStr ''OPTIONS'',
        JStr ''TRACE'', JStr ''POST'', JStr ''PUT'', JStr ''PATCH'', JStr ''DELETE'']"
    by (simp add: search_meta_def)
  from unknown_method_raises [OF refl u t m, of "ScalarTypeComposer ''String''"] t
  show ?thesis
    by (simp add: search_meta_def js_toString_def)
qed

section \<open>Schema synthesis\<close>

lemma map_of_assign: "map_of (assign kvs k v) k' = (if k' = k then Some v else map_of kvs k')"
  by (induction kvs) auto

lemma schema_field_set_field:
  assumes "set_field schema key d name v = Inr schema'"
  shows "schema_field schema' key' name' =
           (if key' = key
            then (if name' = name then Some v
                  else (case rtd_properties d of None \<Rightarrow> None | Some props \<Rightarrow> map_of props name'))
            else schema_field schema key' name')"
  using assms
  by (auto simp: set_field_def store_root_def schema_field_def map_of_assign split: option.splits)

lemma schema_field_store_root:
  "key' \<noteq> key \<Longrightarrow> schema_field (store_root schema key d) key' name = schema_field schema key' name"
  by (simp add: store_root_def schema_field_def map_of_assign)

lemma response_side_ref:
  assumes "truthy (get_prop operationConfig ''responseSchema'')"
  shows "\<exists>schema'. response_side T operationConfig meta (calls, schema) = (calls, Inr schema')
           \<and> schema_field schema' (operationType meta) (property_key T (fieldName meta)) =
               Some (JObj [(''$ref'', get_prop operationConfig ''responseSchema'')])"
  using assms
  by (simp add: response_side_def Let_def set_field_def store_root_def schema_field_def map_of_assign)

lemma response_side_frame:
  assumes "response_side T operationConfig meta (calls, schema) = (calls', Inr schema')"
    and "(key, name) \<noteq> (operationType meta, property_key T (fieldName meta))"
  shows "schema_field schema' key name = schema_field schema key name"
proof -
  let ?d0 = "root_definition schema (operationType meta) (rootTypeName meta)"
  let ?d = "?d0\<lparr>rtd_properties :=
              Some (case rtd_properties ?d0 of None \<Rightarrow> [] | Some props \<Rightarrow> props)\<rparr>"
  from assms(1) obtain v where
    "set_field schema (operationType meta) ?d (property_key T (fieldName meta)) v = Inr schema'"
    by (auto simp: response_side_def Let_def split: if_splits sum.splits)
  from schema_field_set_field [OF this, of key name] assms(2)
  show ?thesis
    by (auto simp: root_definition_def schema_field_def split: option.splits)
qed

lemma request_side_frame:
  assumes "request_side T operationConfig meta (calls, schema) = (calls', Inr schema')"
    and "key \<noteq> operationType meta @ ''Input''"
  shows "schema_field schema' key name = schema_field schema key name"
proof -
  let ?k = "operationType meta @ ''Input''"
  let ?d = "root_definition schema ?k (rootTypeName meta @ ''Input'')"
  from assms(1) have "(\<exists>v. set_field schema ?k ?d (property_key T (fieldName meta)) v = Inr schema')
      \<or> schema' = store_root schema ?k ?d"
    by (auto simp: request_side_def Let_def split: if_splits sum.splits)
  then show ?thesis
  proof
    assume "\<exists>v. set_field schema ?k ?d (property_key T (fieldName meta)) v = Inr schema'"
    then obtain v where "set_field schema ?k ?d (property_key T (fieldName meta)) v = Inr schema'" ..
    from schema_field_set_field [OF this, of key name] assms(2) show ?thesis
      by simp
  next
    assume "schema' = store_root schema ?k ?d"
    with assms(2) show ?thesis
      by (simp add: schema_field_store_root)
  qed
qed

lemma lower_char_not_I: "lower_char c \<noteq> CHR ''I''"
  unfolding lower_char_def by (simp split: option.splits)

lemma operationType_no_I:
  assumes "getOperationMetadata operationConfig = Inr meta"
  shows "CHR ''I'' \<notin> set (operationType meta)"
proof (cases "isPubSubOperationConfig operationConfig")
  case True
  with assms show ?thesis
    by (auto simp: getOperationMetadata_def)
next
  case False
  with assms obtain t where "operationType meta = toLowerCase t"
    by (auto simp: getOperationMetadata_def Let_def split: js.splits)
  moreover have "CHR ''I'' \<notin> set (toLowerCase t)"
    by (induction t) (simp_all add: toLowerCase_def lower_char_not_I [symmetric])
  ultimately show ?thesis
    by simp
qed

text \<open>The operations after a given one leave its response property alone when none of them
  has both its operation type and its field name.\<close>

lemma process_operations_frame:
  assumes "process_operations T ops (calls, schema) = (calls', Inr schema')"
    and "CHR ''I'' \<notin> set key"
    and "\<forall>operationConfig \<in> set ops. \<forall>meta. getOperationMetadata operationConfig = Inr meta \<longrightarrow>
           (operationType meta, property_key T (fieldName meta)) \<noteq> (key, name)"
  shows "schema_field schema' key name = schema_field schema key name"
  using assms
proof (induction ops arbitrary: calls schema)
  case Nil
  then show ?case by simp
next
  case (Cons operationConfig rest)
  from Cons.prems(1) obtain meta calls1 schema1 calls2 schema2 where
    meta: "getOperationMetadata operationConfig = Inr meta"
    and resp: "response_side T operationConfig meta (calls, schema) = (calls1, Inr schema1)"
    and req: "request_side T operationConfig meta (calls1, schema1) = (calls2, Inr schema2)"
    and rest: "process_operations T rest (calls2, schema2) = (calls', Inr schema')"
    by (auto split: sum.splits prod.splits)
  from Cons.prems(3) meta have other: "(key, name) \<noteq> (operationType meta, property_key T (fieldName meta))"
    by auto
  from Cons.prems(2) have "key \<noteq> operationType meta @ ''Input''"
    by auto
  with response_side_frame [OF resp other] request_side_frame [OF req]
  have "schema_field schema2 key name = schema_field schema key name"
    by simp
  moreover have "schema_field schema' key name = schema_field schema2 key name"
    using Cons.IH [OF rest Cons.prems(2)] Cons.prems(3) by simp
  ultimately show ?case
    by simp
qed

lemmas schema_simps =
  sample_tools_def schema_config_def sample_config_def request_sample_config_def options_with_def
  buildFinalJSONSchema_def initial_schema_def response_side_def request_side_def
  getOperationMetadata_def isPubSubOperationConfig_def has_key_def get_prop_def toLowerCase_def
  lower_char_def property_key_def root_definition_def store_root_def set_field_def Let_def

text \<open>
  C9. For an operation with a (truthy) \<^verbatim>\<open>responseSchema\<close>, the response side makes no call, so
  it reads no sample and infers no schema, and leaves
  \<^verbatim>\<open>properties[operationType].properties[fieldName]\<close> equal to the object whose only property
  is \<^verbatim>\<open>$ref\<close> with the value of \<^verbatim>\<open>responseSchema\<close>; and that is still the property when the
  loop over the operations ends, provided no later operation has both the same operation
  type and the same field name.
\<close>

theorem responseSchema_ref:
  assumes "truthy (get_prop operationConfig ''responseSchema'')"
    and "getOperationMetadata operationConfig = Inr meta"
  shows "(\<exists>schema1. response_side T operationConfig meta (calls, schema) = (calls, Inr schema1)
            \<and> schema_field schema1 (operationType meta) (property_key T (fieldName meta)) =
                Some (JObj [(''$ref'', get_prop operationConfig ''responseSchema'')]))
       \<and> (process_operations T (operationConfig # rest) (calls, schema) = (calls', Inr schema')
          \<and> (\<forall>later \<in> set rest. \<forall>meta'. getOperationMetadata later = Inr meta' \<longrightarrow>
                (operationType meta', property_key T (fieldName meta'))
                  \<noteq> (operationType meta, property_key T (fieldName meta))) \<longrightarrow>
          schema_field schema' (operationType meta) (property_key T (fieldName meta)) =
            Some (JObj [(''$ref'', get_prop operationConfig ''responseSchema'')]))"
proof (intro conjI impI)
  let ?key = "operationType meta" and ?name = "property_key T (fieldName meta)"
  let ?ref = "JObj [(''$ref'', get_prop operationConfig ''responseSchema'')]"
  from response_side_ref [OF assms(1), of T meta calls schema]
  obtain schema1 where
    resp: "response_side T operationConfig meta (calls, schema) = (calls, Inr schema1)"
    and field: "schema_field schema1 ?key ?name = Some ?ref"
    by blast
  then show "\<exists>schema1. response_side T operationConfig meta (calls, schema) = (calls, Inr schema1)
            \<and> schema_field schema1 ?key ?name = Some ?ref"
    by blast
  assume loop: "process_operations T (operationConfig # rest) (calls, schema) = (calls', Inr schema')
          \<and> (\<forall>later \<in> set rest. \<forall>meta'. getOperationMetadata later = Inr meta' \<longrightarrow>
                (operationType meta', property_key T (fieldName meta')) \<noteq> (?key, ?name))"
  with assms(2) resp obtain calls2 schema2 where
    req: "request_side T operationConfig meta (calls, schema1) = (calls2, Inr schema2)"
    and rest: "process_operations T rest (calls2, schema2) = (calls', Inr schema')"
    by (auto split: sum.splits prod.splits)
  have "?key \<noteq> ?key @ ''Input''"
    by simp
  from request_side_frame [OF req this] field
  have "schema_field schema2 ?key ?name = Some ?ref"
    by simp
  moreover from process_operations_frame [OF rest operationType_no_I [OF assms(2)]] loop
  have "schema_field schema' ?key ?name = schema_field schema2 ?key ?name"
    by simp
  ultimately show "schema_field schema' ?key ?name = Some ?ref"
    by simp
qed

text \<open>C9, witness: an operation with the schema \<^verbatim>\<open>user.json\<close>, followed by another query.\<close>

theorem responseSchema_ref_witness:
  "getOperationMetadata schema_config = Inr getUser_meta
   \<and> (\<exists>schema1. response_side sample_tools schema_config getUser_meta ([], initial_schema)
                   = ([], Inr schema1)
         \<and> schema_field schema1 ''query'' ''getUser'' = Some (JObj [(''$ref'', JStr ''user.json'')]))
   \<and> (\<exists>calls' schema'.
         process_operations sample_tools [schema_config, motd_config] ([], initial_schema)
           = (calls', Inr schema')
         \<and> schema_field schema' ''query'' ''getUser'' = Some (JObj [(''$ref'', JStr ''user.json'')]))"
proof -
  have t: "truthy (get_prop schema_config ''responseSchema'')"
    by (simp add: schema_simps)
  have meta: "getOperationMetadata schema_config = Inr getUser_meta"
    by (simp add: schema_simps getUser_meta_def)
  obtain calls' schema' where loop:
    "process_operations sample_tools [schema_config, motd_config] ([], initial_schema)
       = (calls', Inr schema')"
    by (simp add: schema_simps motd_config_def)
  have later: "\<forall>later \<in> set [motd_config]. \<forall>meta'. getOperationMetadata later = Inr meta' \<longrightarrow>
                (operationType meta', property_key sample_tools (fieldName meta'))
                  \<noteq> (operationType getUser_meta, property_key sample_tools (fieldName getUser_meta))"
    by (auto simp: schema_simps motd_config_def getUser_meta_def)
  from responseSchema_ref [OF t meta, of sample_tools "[]" initial_schema "[motd_config]" calls' schema']
    loop later meta
  show ?thesis
    by (simp add: getUser_meta_def property_key_def schema_config_def get_prop_def)
qed

lemma process_operations_append:
  "process_operations T (xs @ ys) st =
     (case process_operations T xs st of
        (calls, Inl e) \<Rightarrow> (calls, Inl e)
      | (calls, Inr schema) \<Rightarrow> process_operations T ys (calls, schema))"
  by (induction xs arbitrary: st) (auto split: sum.splits prod.splits)

lemma response_side_no_pipeline:
  "filter is_pipeline_call (fst (response_side T operationConfig meta (calls, schema)))
     = filter is_pipeline_call calls"
  by (simp add: response_side_def Let_def split: sum.splits)

lemma request_side_no_pipeline:
  "filter is_pipeline_call (fst (request_side T operationConfig meta (calls, schema)))
     = filter is_pipeline_call calls"
  by (simp add: request_side_def Let_def split: sum.splits)

lemma process_operations_no_pipeline:
  "filter is_pipeline_call (fst (process_operations T ops (calls, schema)))
     = filter is_pipeline_call calls"
proof (induction ops arbitrary: calls schema)
  case Nil
  show ?case by simp
next
  case (Cons operationConfig rest)
  show ?case
  proof (cases "getOperationMetadata operationConfig")
    case (Inl e)
    then show ?thesis by simp
  next
    case (Inr meta)
    obtain calls1 r1 where resp: "response_side T operationConfig meta (calls, schema) = (calls1, r1)"
      by (cases "response_side T operationConfig meta (calls, schema)")
    with response_side_no_pipeline [of T operationConfig meta calls schema]
    have c1: "filter is_pipeline_call calls1 = filter is_pipeline_call calls"
      by simp
    show ?thesis
    proof (cases r1)
      case (Inl e)
      with Inr resp c1 show ?thesis by simp
    next
      case schema1: (Inr schema1)
      obtain calls2 r2 where req: "request_side T operationConfig meta (calls1, schema1) = (calls2, r2)"
        by (cases "request_side T operationConfig meta (calls1, schema1)")
      with request_side_no_pipeline [of T operationConfig meta calls1 schema1] c1
      have c2: "filter is_pipeline_call calls2 = filter is_pipeline_call calls"
        by simp
      show ?thesis
      proof (cases r2)
        case (Inl e)
        with Inr resp schema1 req c2 show ?thesis by simp
      next
        case schema2: (Inr schema2)
        with Inr resp schema1 req c2 Cons.IH [of calls2 schema2] show ?thesis by simp
      qed
    qed
  qed
qed

lemma response_side_unreadable:
  assumes "\<not> truthy (get_prop operationConfig ''responseSchema'')"
    and "truthy (get_prop operationConfig ''responseSample'')"
    and "readFileOrUrl T (get_prop operationConfig ''responseSample'') = Inl m"
  shows "response_side T operationConfig meta (calls, schema) =
           (calls @ [ReadFileOrUrl (get_prop operationConfig ''responseSample'')],
            Inl (Error (''responseSample - '' @ m)))"
  using assms by (simp add: response_side_def Let_def)

lemma request_side_unreadable:
  assumes "\<not> truthy (get_prop operationConfig ''requestSchema'')"
    and "truthy (get_prop operationConfig ''requestSample'')"
    and "readFileOrUrl T (get_prop operationConfig ''requestSample'') = Inl m"
  shows "request_side T operationConfig meta (calls, schema) =
           (calls @ [ReadFileOrUrl (get_prop operationConfig ''requestSample'')],
            Inl (Error (''requestSample:'' @ property_key T (get_prop operationConfig ''requestSample'')
                        @ '' cannot be read - '' @ m)))"
  using assms by (simp add: request_side_def Let_def)

lemma buildFinalJSONSchema_failure:
  assumes "process_operations T (operations options) ([], initial_schema) = (calls, Inl e)"
  shows "buildFinalJSONSchema T options = (calls, Inl e)"
    and "filter is_pipeline_call (fst (buildFinalJSONSchema T options)) = []"
proof -
  show r: "buildFinalJSONSchema T options = (calls, Inl e)"
    using assms by (simp add: buildFinalJSONSchema_def)
  from process_operations_no_pipeline [of T "operations options" "[]" initial_schema] assms
  have "filter is_pipeline_call calls = []"
    by simp
  with r show "filter is_pipeline_call (fst (buildFinalJSONSchema T options)) = []"
    by simp
qed

text \<open>
  C8, as stated, fails: an operation that has a \<^verbatim>\<open>responseSchema\<close> and a \<^verbatim>\<open>responseSample\<close>
  that cannot be read. The sample is never read, synthesis succeeds, and its three calls are
  those of the pipeline.
\<close>

theorem unreadable_sample_counterexample:
  "readFileOrUrl sample_tools (get_prop schema_config ''responseSample'') = Inl ''ENOENT''
   \<and> snd (buildFinalJSONSchema sample_tools (options_with [schema_config])) = Inr (JObj [])
   \<and> map is_pipeline_call (fst (buildFinalJSONSchema sample_tools (options_with [schema_config])))
       = [True, True, True]"
  by (simp add: schema_simps)

text \<open>
  C8, amended. Let the operations before a given one be processed without error, and let
  its metadata be derived. If the operation has no truthy \<^verbatim>\<open>responseSchema\<close> and its truthy
  \<^verbatim>\<open>responseSample\<close> cannot be read, synthesis fails with the error \<^verbatim>\<open>responseSample - \<close>
  followed by the message of the cause. If its response side succeeds, it has no truthy
  \<^verbatim>\<open>requestSchema\<close> and its truthy \<^verbatim>\<open>requestSample\<close> cannot be read, synthesis fails with the
  error \<^verbatim>\<open>requestSample:\<close>, the sample, \<^verbatim>\<open> cannot be read - \<close> and the message of the cause.
  In both cases no call of the dereference, heal and re-reference pipeline is made.
\<close>

theorem unreadable_sample_fails:
  assumes pre: "process_operations T pre ([], initial_schema) = (calls, Inr schema)"
    and ops: "operations options = pre @ operationConfig # post"
    and meta: "getOperationMetadata operationConfig = Inr meta"
  shows "(\<not> truthy (get_prop operationConfig ''responseSchema'')
          \<and> truthy (get_prop operationConfig ''responseSample'')
          \<and> readFileOrUrl T (get_prop operationConfig ''responseSample'') = Inl m \<longrightarrow>
          buildFinalJSONSchema T options =
            (calls @ [ReadFileOrUrl (get_prop operationConfig ''responseSample'')],
             Inl (Error (''responseSample - '' @ m)))
          \<and> filter is_pipeline_call (fst (buildFinalJSONSchema T options)) = [])
       \<and> (response_side T operationConfig meta (calls, schema) = (calls1, Inr schema1)
          \<and> \<not> truthy (get_prop operationConfig ''requestSchema'')
          \<and> truthy (get_prop operationConfig ''requestSample'')
          \<and> readFileOrUrl T (get_prop operationConfig ''requestSample'') = Inl m \<longrightarrow>
          buildFinalJSONSchema T options =
            (calls1 @ [ReadFileOrUrl (get_prop operationConfig ''requestSample'')],
             Inl (Error (''requestSample:''
                         @ property_key T (get_prop operationConfig ''requestSample'')
                         @ '' cannot be read - '' @ m)))
          \<and> filter is_pipeline_call (fst (buildFinalJSONSchema T options)) = [])"
proof (intro conjI impI)
  assume a: "\<not> truthy (get_prop operationConfig ''responseSchema'')
          \<and> truthy (get_prop operationConfig ''responseSample'')
          \<and> readFileOrUrl T (get_prop operationConfig ''responseSample'') = Inl m"
  then have "response_side T operationConfig meta (calls, schema) =
           (calls @ [ReadFileOrUrl (get_prop operationConfig ''responseSample'')],
            Inl (Error (''responseSample - '' @ m)))"
    using response_side_unreadable by simp
  with pre ops meta
  have "process_operations T (operations options) ([], initial_schema) =
          (calls @ [ReadFileOrUrl (get_prop operationConfig ''responseSample'')],
           Inl (Error (''responseSample - '' @ m)))"
    by (simp add: process_operations_append)
  from buildFinalJSONSchema_failure [OF this]
  show "buildFinalJSONSchema T options =
            (calls @ [ReadFileOrUrl (get_prop operationConfig ''responseSample'')],
             Inl (Error (''responseSample - '' @ m)))"
    and "filter is_pipeline_call (fst (buildFinalJSONSchema T options)) = []"
    by simp_all
next
  assume b: "response_side T operationConfig meta (calls, schema) = (calls1, Inr schema1)
          \<and> \<not> truthy (get_prop operationConfig ''requestSchema'')
          \<and> truthy (get_prop operationConfig ''requestSample'')
          \<and> readFileOrUrl T (get_prop operationConfig ''requestSample'') = Inl m"
  then have "request_side T operationConfig meta (calls1, schema1) =
           (calls1 @ [ReadFileOrUrl (get_prop operationConfig ''requestSample'')],
            Inl (Error (''requestSample:'' @ property_key T (get_prop operationConfig ''requestSample'')
                        @ '' cannot be read - '' @ m)))"
    using request_side_unreadable by simp
  with pre ops meta b
  have "process_operations T (operations options) ([], initial_schema) =
          (calls1 @ [ReadFileOrUrl (get_prop operationConfig ''requestSample'')],
           Inl (Error (''requestSample:'' @ property_key T (get_prop operationConfig ''requestSample'')
                        @ '' cannot be read - '' @ m)))"
    by (simp add: process_operations_append)
  from buildFinalJSONSchema_failure [OF this]
  show "buildFinalJSONSchema T options =
            (calls1 @ [ReadFileOrUrl (get_prop operationConfig ''requestSample'')],
             Inl (Error (''requestSample:''
                         @ property_key T (get_prop operationConfig ''requestSample'')
                         @ '' cannot be read - '' @ m)))"
    and "filter is_pipeline_call (fst (buildFinalJSONSchema T options)) = []"
    by simp_all
qed

text \<open>
  C8, witness: an unreadable response sample after an operation with a schema, and an
  unreadable request sample.
\<close>

theorem unreadable_sample_fails_witness:
  "buildFinalJSONSchema sample_tools (options_with [schema_config, sample_config]) =
     ([ReadFileOrUrl (JStr ''missing.json'')], Inl (Error ''responseSample - ENOENT''))
   \<and> filter is_pipeline_call
        (fst (buildFinalJSONSchema sample_tools (options_with [schema_config, sample_config]))) = []
   \<and> buildFinalJSONSchema sample_tools (options_with [request_sample_config]) =
       ([ReadFileOrUrl (JStr ''absent.json'')],
        Inl (Error ''requestSample:absent.json cannot be read - ENOENT''))
   \<and> filter is_pipeline_call
        (fst (buildFinalJSONSchema sample_tools (options_with [request_sample_config]))) = []"
proof -
  obtain schema where pre1:
    "process_operations sample_tools [schema_config] ([], initial_schema) = ([], Inr schema)"
    by (simp add: schema_simps)
  obtain meta1 where meta1: "getOperationMetadata sample_config = Inr meta1"
    by (simp add: schema_simps)
  have ops1: "operations (options_with [schema_config, sample_config])
                = [schema_config] @ sample_config # []"
    by (simp add: options_with_def)
  have fail1: "\<not> truthy (get_prop sample_config ''responseSchema'')
          \<and> truthy (get_prop sample_config ''responseSample'')
          \<and> readFileOrUrl sample_tools (get_prop sample_config ''responseSample'') = Inl ''ENOENT''"
    by (simp add: schema_simps)
  from unreadable_sample_fails [OF pre1 ops1 meta1, of "''ENOENT''"] fail1
  have one: "buildFinalJSONSchema sample_tools (options_with [schema_config, sample_config]) =
     ([ReadFileOrUrl (JStr ''missing.json'')], Inl (Error ''responseSample - ENOENT''))
   \<and> filter is_pipeline_call
        (fst (buildFinalJSONSchema sample_tools (options_with [schema_config, sample_config]))) = []"
    by (simp add: sample_config_def get_prop_def)
  have pre2: "process_operations sample_tools [] ([], initial_schema) = ([], Inr initial_schema)"
    by simp
  obtain meta2 where meta2: "getOperationMetadata request_sample_config = Inr meta2"
    by (simp add: schema_simps)
  have ops2: "operations (options_with [request_sample_config]) = [] @ request_sample_config # []"
    by (simp add: options_with_def)
  obtain schema1 where resp2:
    "response_side sample_tools request_sample_config meta2 ([], initial_schema) = ([], Inr schema1)"
    by (simp add: response_side_def Let_def set_field_def request_sample_config_def get_prop_def)
  have fail2: "\<not> truthy (get_prop request_sample_config ''requestSchema'')
          \<and> truthy (get_prop request_sample_config ''requestSample'')
          \<and> readFileOrUrl sample_tools (get_prop request_sample_config ''requestSample'') = Inl ''ENOENT''"
    by (simp add: schema_simps)
  from unreadable_sample_fails [OF pre2 ops2 meta2, of "''ENOENT''" "[]" schema1] resp2 fail2
  have two: "buildFinalJSONSchema sample_tools (options_with [request_sample_config]) =
       ([ReadFileOrUrl (JStr ''absent.json'')],
        Inl (Error ''requestSample:absent.json cannot be read - ENOENT''))
   \<and> filter is_pipeline_call
        (fst (buildFinalJSONSchema sample_tools (options_with [request_sample_config]))) = []"
    by (simp add: request_sample_config_def get_prop_def property_key_def)
  from one two show ?thesis
    by simp
qed

end
